theory Spec2Isabelle
  imports Complex_Main "HOL-Library.Sublist"
begin

section \<open>Book geometry: data model\<close>

text \<open>
  The embedding follows \<^verbatim>\<open>src/lib/types.ts\<close>, the handlers of
  \<^verbatim>\<open>src/components/Controls/Controls.tsx\<close> and the guide drawing of
  \<^verbatim>\<open>src/components/Canvas/CanvasEditor.tsx\<close>.

  A TypeScript \<^verbatim>\<open>number\<close> that holds a measure in inches or pixels is a
  \<^typ>\<open>real\<close>: the arithmetic of the source is read as exact arithmetic on the decimal
  literals it writes. The page count is an \<^typ>\<open>int\<close>: the only producer of page
  counts is \<^verbatim>\<open>parseInt(e.target.value) || 0\<close> and the initial state 60.
\<close>

record Dimensions =
  width :: real
  height :: real

text \<open>
  \<^verbatim>\<open>interface BookFormat\<close>. The field \<^verbatim>\<open>id\<close> is named \<open>format_id\<close> (\<open>id\<close>
  is the identity function of HOL). The optional fields \<^verbatim>\<open>spineWidth?\<close> and
  \<^verbatim>\<open>pageCount?\<close> are options: \<open>None\<close> is the absent property.
\<close>

record BookFormat =
  format_id :: string
  name :: string
  noBleed :: Dimensions
  withBleed :: Dimensions
  isSpread :: bool
  gutterWidth :: real
  spineWidth :: "real option"
  pageCount :: "int option"

subsection \<open>The format catalog\<close>

text \<open>
  \<^verbatim>\<open>BOOK_FORMATS\<close> is an object literal used as a dictionary. Its entries are kept
  in the order of the source, as pairs of the key and the value; \<open>BOOK_FORMATS\<close> is
  the table of these entries, the own properties of the literal. What the expression
  \<^verbatim>\<open>BOOK_FORMATS[k]\<close> evaluates to is \<open>BOOK_FORMATS_index\<close>, defined after the
  table.
\<close>

definition pocketbook :: BookFormat where
  "pocketbook = \<lparr>format_id = ''pocketbook'', name = ''Pocketbook'',
     noBleed = \<lparr>width = 4.25, height = 6.875\<rparr>,
     withBleed = \<lparr>width = 4.5, height = 7.125\<rparr>,
     isSpread = False, gutterWidth = 0, spineWidth = None, pageCount = None\<rparr>"

definition digest :: BookFormat where
  "digest = \<lparr>format_id = ''digest'', name = ''Digest'',
     noBleed = \<lparr>width = 5.5, height = 8.5\<rparr>,
     withBleed = \<lparr>width = 5.75, height = 8.75\<rparr>,
     isSpread = False, gutterWidth = 0, spineWidth = None, pageCount = None\<rparr>"

definition a5 :: BookFormat where
  "a5 = \<lparr>format_id = ''a5'', name = ''A5'',
     noBleed = \<lparr>width = 5.83, height = 8.27\<rparr>,
     withBleed = \<lparr>width = 6.08, height = 8.52\<rparr>,
     isSpread = False, gutterWidth = 0, spineWidth = None, pageCount = None\<rparr>"

definition royal :: BookFormat where
  "royal = \<lparr>format_id = ''royal'', name = ''Royal'',
     noBleed = \<lparr>width = 6.14, height = 9.21\<rparr>,
     withBleed = \<lparr>width = 6.39, height = 9.46\<rparr>,
     isSpread = False, gutterWidth = 0, spineWidth = None, pageCount = None\<rparr>"

definition usTrade :: BookFormat where
  "usTrade = \<lparr>format_id = ''usTrade'', name = ''US Trade'',
     noBleed = \<lparr>width = 6, height = 9\<rparr>,
     withBleed = \<lparr>width = 6.25, height = 9.25\<rparr>,
     isSpread = False, gutterWidth = 0, spineWidth = None, pageCount = None\<rparr>"

definition comicBook :: BookFormat where
  "comicBook = \<lparr>format_id = ''comicBook'', name = ''Comic Book'',
     noBleed = \<lparr>width = 6.63, height = 10.25\<rparr>,
     withBleed = \<lparr>width = 6.88, height = 10.5\<rparr>,
     isSpread = False, gutterWidth = 0, spineWidth = None, pageCount = None\<rparr>"

definition pocketbookSpread :: BookFormat where
  "pocketbookSpread = \<lparr>format_id = ''pocketbookSpread'', name = ''Pocketbook Cover'',
     noBleed = \<lparr>width = 8.5, height = 6.875\<rparr>,
     withBleed = \<lparr>width = 9, height = 7.125\<rparr>,
     isSpread = True, gutterWidth = 0.125, spineWidth = Some 0, pageCount = None\<rparr>"

definition digestSpread :: BookFormat where
  "digestSpread = \<lparr>format_id = ''digestSpread'', name = ''Digest Cover'',
     noBleed = \<lparr>width = 11, height = 8.5\<rparr>,
     withBleed = \<lparr>width = 11.5, height = 8.75\<rparr>,
     isSpread = True, gutterWidth = 0.125, spineWidth = Some 0, pageCount = None\<rparr>"

definition BOOK_FORMATS_entries :: "(string \<times> BookFormat) list" where
  "BOOK_FORMATS_entries =
     [(''pocketbook'', pocketbook), (''digest'', digest), (''a5'', a5), (''royal'', royal),
      (''usTrade'', usTrade), (''comicBook'', comicBook),
      (''pocketbookSpread'', pocketbookSpread), (''digestSpread'', digestSpread)]"

definition BOOK_FORMATS :: "string \<rightharpoonup> BookFormat" where
  "BOOK_FORMATS = map_of BOOK_FORMATS_entries"

text \<open>
  The literal is a plain object, so indexing it with a string that is not one of its
  keys does not always give \<^verbatim>\<open>undefined\<close>: the names of the properties every object
  inherits from \<^verbatim>\<open>Object.prototype\<close> give the inherited value (a function, or the
  prototype itself for \<^verbatim>\<open>__proto__\<close>). The repository does not list these names;
  they are the ones of the ECMAScript standard. Such a value is truthy, has none of
  the properties of a \<open>BookFormat\<close>, and has no enumerable own property, so its copy
  \<^verbatim>\<open>{ ...v }\<close> is the empty object.
\<close>

definition Object_prototype_names :: "string list" where
  "Object_prototype_names =
     [''constructor'', ''__defineGetter__'', ''__defineSetter__'', ''hasOwnProperty'',
      ''__lookupGetter__'', ''__lookupSetter__'', ''isPrototypeOf'',
      ''propertyIsEnumerable'', ''toString'', ''valueOf'', ''__proto__'',
      ''toLocaleString'']"

datatype Lookup = Entry BookFormat | Inherited | Undefined

definition BOOK_FORMATS_index :: "string \<Rightarrow> Lookup" where
  "BOOK_FORMATS_index k =
     (case BOOK_FORMATS k of
        Some f \<Rightarrow> Entry f
      | None \<Rightarrow> if k \<in> set Object_prototype_names then Inherited else Undefined)"

subsection \<open>Specification rules\<close>

definition getGutterWidth :: "int \<Rightarrow> real" where
  "getGutterWidth pc =
     (if pc < 60 then 0
      else if pc \<le> 150 then 0.125
      else if pc \<le> 400 then 0.5
      else if pc \<le> 600 then 0.625
      else 0.75)"

text \<open>
  The quotient and the sum of the paperback rule are the exact ones. The code computes
  them on doubles: what it returns is this value up to the rounding of the division and
  of the addition (and of the literal 0.06), so two very large page counts may
  return the same double where the exact values differ. The two values stated below,
  for 444 pages and for 0 pages, are also the doubles the code returns.
\<close>

definition calculatePaperbackSpineWidth :: "int \<Rightarrow> real" where
  "calculatePaperbackSpineWidth pc = (real_of_int pc / 444) + 0.06"

definition calculateHardcoverSpineWidth :: "int \<Rightarrow> real" where
  "calculateHardcoverSpineWidth pc =
     (if pc < 24 then 0
      else if pc \<le> 84 then 0.25
      else if pc \<le> 140 then 0.5
      else if pc \<le> 168 then 0.625
      else if pc \<le> 194 then 0.688
      else if pc \<le> 222 then 0.75
      else if pc \<le> 250 then 0.813
      else if pc \<le> 278 then 0.875
      else if pc \<le> 306 then 0.938
      else if pc \<le> 334 then 1.0
      else if pc \<le> 360 then 1.063
      else if pc \<le> 388 then 1.125
      else if pc \<le> 416 then 1.188
      else if pc \<le> 444 then 1.25
      else if pc \<le> 472 then 1.313
      else if pc \<le> 500 then 1.375
      else if pc \<le> 528 then 1.438
      else if pc \<le> 556 then 1.5
      else if pc \<le> 582 then 1.563
      else 1.625)"

text \<open>
  The bracket table of the specification of the hardcover rule, as the specification
  words it: upper bounds of the brackets with their widths, read from the smallest bound
  up; below 24 pages the width is 0 (the first bracket of the table, 24 to 0, which the
  specification spells out as the page counts below 24) and beyond the last bound it is
  1.625. This second definition follows the specification, not the source; the two are
  compared below.
\<close>

definition hardcover_brackets :: "(int \<times> real) list" where
  "hardcover_brackets =
     [(84, 0.25), (140, 0.5), (168, 0.625), (194, 0.688), (222, 0.75), (250, 0.813),
      (278, 0.875), (306, 0.938), (334, 1.0), (360, 1.063), (388, 1.125), (416, 1.188),
      (444, 1.25), (472, 1.313), (500, 1.375), (528, 1.438), (556, 1.5), (582, 1.563)]"

fun bracket_lookup :: "(int \<times> real) list \<Rightarrow> real \<Rightarrow> int \<Rightarrow> real" where
  "bracket_lookup [] dflt pc = dflt"
| "bracket_lookup ((bound, w) # rest) dflt pc =
     (if pc \<le> bound then w else bracket_lookup rest dflt pc)"

definition hardcover_spec :: "int \<Rightarrow> real" where
  "hardcover_spec pc = (if pc < 24 then 0 else bracket_lookup hardcover_brackets 1.625 pc)"

section \<open>Format resolution: the handlers of the Controls component\<close>

text \<open>
  The state of the component is the tuple of its \<^verbatim>\<open>useState\<close> cells that take part in
  format resolution (the display toggles are props of the canvas and appear there). The
  cells \<^verbatim>\<open>pageCount\<close> and \<^verbatim>\<open>isSpread\<close> carry the suffix \<open>_st\<close>, the fields of
  \<open>BookFormat\<close> having the same names.
\<close>

datatype BindingType = Paperback | Hardcover

record Controls =
  selectedFormat :: string
  pageCount_st :: int
  isSpread_st :: bool
  bindingType :: BindingType
  customWidth :: real
  customHeight :: real
  useCustomSize :: bool

definition initial_controls :: Controls where
  "initial_controls = \<lparr>selectedFormat = ''usTrade'', pageCount_st = 60, isSpread_st = False,
     bindingType = Paperback, customWidth = 0, customHeight = 0, useCustomSize = False\<rparr>"

text \<open>
  The object a handler passes to \<^verbatim>\<open>onFormatChange\<close>. The copy
  \<^verbatim>\<open>{ ...BOOK_FORMATS[k] }\<close> of an entry is a full format; the copy of
  \<^verbatim>\<open>undefined\<close> or of an inherited value is the empty object, which the assignments
  that follow fill with a gutter width, a spine width and a page count at most: a
  \<open>Fragment\<close>. An inherited value passed on as it is has none of the three.
\<close>

datatype FormatObj =
    Format BookFormat
  | Fragment "real option" "real option" "int option"

definition spreadEntry :: "string \<Rightarrow> FormatObj" where
  "spreadEntry k =
     (case BOOK_FORMATS_index k of
        Entry f \<Rightarrow> Format f
      | Inherited \<Rightarrow> Fragment None None None
      | Undefined \<Rightarrow> Fragment None None None)"

fun set_gutterWidth :: "real \<Rightarrow> FormatObj \<Rightarrow> FormatObj" where
  "set_gutterWidth g (Format f) = Format (f\<lparr>gutterWidth := g\<rparr>)"
| "set_gutterWidth g (Fragment _ sw pc) = Fragment (Some g) sw pc"

fun set_spineWidth :: "real \<Rightarrow> FormatObj \<Rightarrow> FormatObj" where
  "set_spineWidth w (Format f) = Format (f\<lparr>spineWidth := Some w\<rparr>)"
| "set_spineWidth w (Fragment g _ pc) = Fragment g (Some w) pc"

fun set_pageCount :: "int \<Rightarrow> FormatObj \<Rightarrow> FormatObj" where
  "set_pageCount n (Format f) = Format (f\<lparr>pageCount := Some n\<rparr>)"
| "set_pageCount n (Fragment g sw _) = Fragment g sw (Some n)"

text \<open>The test \<^verbatim>\<open>if (format.isSpread)\<close>: an absent property is falsy.\<close>

fun obj_isSpread :: "FormatObj \<Rightarrow> bool" where
  "obj_isSpread (Format f) = isSpread f"
| "obj_isSpread (Fragment _ _ _) = False"

text \<open>
  \<^verbatim>\<open>BOOK_FORMATS[k].isSpread\<close> for a value that is not \<^verbatim>\<open>undefined\<close>: the flag of
  an entry, and \<^verbatim>\<open>undefined\<close> for an inherited value, which the boolean cell of the
  state then holds; it is modelled by its truth value.
\<close>

fun lookup_isSpread :: "Lookup \<Rightarrow> bool" where
  "lookup_isSpread (Entry f) = isSpread f"
| "lookup_isSpread Inherited = False"
| "lookup_isSpread Undefined = False"

text \<open>
  The object literal with \<^verbatim>\<open>id: 'custom'\<close>, which the source writes out in
  \<^verbatim>\<open>updateFormat\<close>, \<^verbatim>\<open>handlePageCountChange\<close>, \<^verbatim>\<open>handleToggleSpread\<close>,
  \<^verbatim>\<open>handleBindingTypeChange\<close> and \<^verbatim>\<open>handleToggleCustomSize\<close>, each time
  with the same fields.
\<close>

definition customFormat :: "real \<Rightarrow> real \<Rightarrow> bool \<Rightarrow> int \<Rightarrow> BookFormat" where
  "customFormat w h sp pc =
     \<lparr>format_id = ''custom'', name = ''Custom Size'',
      noBleed = \<lparr>width = w, height = h\<rparr>,
      withBleed = \<lparr>width = w + 0.25, height = h + 0.25\<rparr>,
      isSpread = sp, gutterWidth = getGutterWidth pc,
      spineWidth = None, pageCount = Some pc\<rparr>"

text \<open>
  \<^verbatim>\<open>bindingType === 'paperback' ? calculatePaperbackSpineWidth(n) : calculateHardcoverSpineWidth(n)\<close>,
  also the body of \<^verbatim>\<open>getSpineWidth\<close>.
\<close>

definition getSpineWidth :: "BindingType \<Rightarrow> int \<Rightarrow> real" where
  "getSpineWidth bt pc =
     (case bt of Paperback \<Rightarrow> calculatePaperbackSpineWidth pc
               | Hardcover \<Rightarrow> calculateHardcoverSpineWidth pc)"

text \<open>
  \<^verbatim>\<open>s.replace(pat, rep)\<close> with a string pattern: the first occurrence of the pattern
  is replaced, a string without the pattern is returned as it is.
\<close>

fun replace_first :: "string \<Rightarrow> string \<Rightarrow> string \<Rightarrow> string" where
  "replace_first pat rep s =
     (if prefix pat s then rep @ drop (length pat) s
      else (case s of [] \<Rightarrow> [] | c # cs \<Rightarrow> c # replace_first pat rep cs))"

text \<open>
  What one run of a handler does: the state after the \<^verbatim>\<open>set...\<close> calls it made, the
  format it passed to \<^verbatim>\<open>onFormatChange\<close> if it called it, and the exception that ended
  it if one did. Reading a property of \<^verbatim>\<open>undefined\<close> raises a \<^verbatim>\<open>TypeError\<close>; the
  state updates queued before the exception stay queued.
\<close>

datatype error = TypeError

record Outcome =
  next_state :: Controls
  emitted :: "FormatObj option"
  thrown :: "error option"

definition updateFormat :: "Controls \<Rightarrow> FormatObj" where
  "updateFormat s =
     (let pc = pageCount_st s;
          format = (if useCustomSize s
                    then Format (customFormat (customWidth s) (customHeight s) (isSpread_st s) pc)
                    else spreadEntry (selectedFormat s));
          format = set_gutterWidth (getGutterWidth pc) format;
          format = set_pageCount pc format
      in if obj_isSpread format
         then set_spineWidth (getSpineWidth (bindingType s) pc) format
         else format)"

text \<open>
  \<^verbatim>\<open>handleFormatChange\<close> reads \<^verbatim>\<open>BOOK_FORMATS[formatId].isSpread\<close> after its first
  two \<^verbatim>\<open>set...\<close> calls: for \<^verbatim>\<open>undefined\<close> this raises; for an inherited value it
  does not, and the handler goes on with the empty copy.
\<close>

definition handleFormatChange :: "string \<Rightarrow> Controls \<Rightarrow> Outcome" where
  "handleFormatChange formatId s =
     (let s1 = s\<lparr>selectedFormat := formatId, useCustomSize := False\<rparr>;
          pc = pageCount_st s
      in case BOOK_FORMATS_index formatId of
           Undefined \<Rightarrow> \<lparr>next_state = s1, emitted = None, thrown = Some TypeError\<rparr>
         | v \<Rightarrow>
             (let s2 = s1\<lparr>isSpread_st := lookup_isSpread v\<rparr>;
                  format = spreadEntry formatId;
                  format = set_gutterWidth (getGutterWidth pc) format;
                  format = (if obj_isSpread format
                            then set_spineWidth (getSpineWidth (bindingType s) pc)
                                   (set_pageCount pc format)
                            else format)
              in \<lparr>next_state = s2, emitted = Some format, thrown = None\<rparr>))"

definition handlePageCountChange :: "int \<Rightarrow> Controls \<Rightarrow> Outcome" where
  "handlePageCountChange count s =
     (let format = (if useCustomSize s
                    then Format (customFormat (customWidth s) (customHeight s) (isSpread_st s) count)
                    else spreadEntry (selectedFormat s));
          format = set_gutterWidth (getGutterWidth count) format;
          format = set_pageCount count format;
          format = (if obj_isSpread format
                    then set_spineWidth (getSpineWidth (bindingType s) count) format
                    else format)
      in \<lparr>next_state = s\<lparr>pageCount_st := count\<rparr>, emitted = Some format, thrown = None\<rparr>)"

text \<open>
  In the catalog branches of \<^verbatim>\<open>handleToggleSpread\<close> the tests
  \<^verbatim>\<open>if (BOOK_FORMATS[id])\<close> fail for \<^verbatim>\<open>undefined\<close> only. Switching off passes on
  \<^verbatim>\<open>BOOK_FORMATS[singleFormatId]\<close> itself, not a copy.
\<close>

definition handleToggleSpread :: "bool \<Rightarrow> Controls \<Rightarrow> Outcome" where
  "handleToggleSpread isSpreadValue s =
     (let s1 = s\<lparr>isSpread_st := isSpreadValue\<rparr>;
          pc = pageCount_st s
      in if useCustomSize s then
           (let format = customFormat (customWidth s) (customHeight s) isSpreadValue pc;
                format = (if isSpreadValue
                          then format\<lparr>spineWidth := Some (getSpineWidth (bindingType s) pc)\<rparr>
                          else format)
            in \<lparr>next_state = s1, emitted = Some (Format format), thrown = None\<rparr>)
         else if isSpreadValue then
           (let spreadFormatId = selectedFormat s @ ''Spread''
            in case BOOK_FORMATS_index spreadFormatId of
                 Undefined \<Rightarrow> \<lparr>next_state = s1, emitted = None, thrown = None\<rparr>
               | v \<Rightarrow>
                   (let format = spreadEntry spreadFormatId;
                        format = set_gutterWidth (getGutterWidth pc) format;
                        format = set_pageCount pc format;
                        format = set_spineWidth (getSpineWidth (bindingType s) pc) format
                    in \<lparr>next_state = s1\<lparr>selectedFormat := spreadFormatId\<rparr>,
                        emitted = Some format, thrown = None\<rparr>))
         else
           (let singleFormatId = replace_first ''Spread'' [] (selectedFormat s)
            in case BOOK_FORMATS_index singleFormatId of
                 Undefined \<Rightarrow> \<lparr>next_state = s1, emitted = None, thrown = None\<rparr>
               | Entry entry \<Rightarrow>
                   \<lparr>next_state = s1\<lparr>selectedFormat := singleFormatId\<rparr>,
                    emitted = Some (Format entry), thrown = None\<rparr>
               | Inherited \<Rightarrow>
                   \<lparr>next_state = s1\<lparr>selectedFormat := singleFormatId\<rparr>,
                    emitted = Some (Fragment None None None), thrown = None\<rparr>))"

definition handleBindingTypeChange :: "BindingType \<Rightarrow> Controls \<Rightarrow> Outcome" where
  "handleBindingTypeChange type s =
     (let s1 = s\<lparr>bindingType := type\<rparr>;
          pc = pageCount_st s
      in if isSpread_st s then
           (let format = (if useCustomSize s
                          then Format (customFormat (customWidth s) (customHeight s) True pc)
                          else spreadEntry (selectedFormat s));
                format = set_pageCount pc format;
                format = set_spineWidth (getSpineWidth type pc) format
            in \<lparr>next_state = s1, emitted = Some format, thrown = None\<rparr>)
         else \<lparr>next_state = s1, emitted = None, thrown = None\<rparr>)"

text \<open>
  The two size handlers call \<^verbatim>\<open>updateFormat()\<close> right after the \<^verbatim>\<open>set...\<close> call:
  \<^verbatim>\<open>updateFormat\<close> is the closure of the current render and reads the state of that
  render, so it is applied to \<open>s\<close>, not to the state with the new size.
\<close>

definition handleCustomWidthChange :: "real \<Rightarrow> Controls \<Rightarrow> Outcome" where
  "handleCustomWidthChange w s =
     \<lparr>next_state = s\<lparr>customWidth := w\<rparr>,
      emitted = (if useCustomSize s then Some (updateFormat s) else None),
      thrown = None\<rparr>"

definition handleCustomHeightChange :: "real \<Rightarrow> Controls \<Rightarrow> Outcome" where
  "handleCustomHeightChange h s =
     \<lparr>next_state = s\<lparr>customHeight := h\<rparr>,
      emitted = (if useCustomSize s then Some (updateFormat s) else None),
      thrown = None\<rparr>"

text \<open>
  \<^verbatim>\<open>handleToggleCustomSize\<close> reads \<^verbatim>\<open>currentFormat.noBleed.width\<close> in its first
  branch: this raises for \<^verbatim>\<open>undefined\<close> (at \<^verbatim>\<open>.noBleed\<close>) and for an inherited
  value (at \<^verbatim>\<open>.width\<close>).
\<close>

definition handleToggleCustomSize :: "bool \<Rightarrow> Controls \<Rightarrow> Outcome" where
  "handleToggleCustomSize useCustom s =
     (let s1 = s\<lparr>useCustomSize := useCustom\<rparr>;
          pc = pageCount_st s
      in if useCustom \<and> customWidth s = 0 \<and> customHeight s = 0 then
           (case BOOK_FORMATS_index (selectedFormat s) of
              Entry currentFormat \<Rightarrow>
                (let w = width (noBleed currentFormat);
                     h = height (noBleed currentFormat);
                     format = customFormat w h (isSpread_st s) pc;
                     format = (if isSpread_st s
                               then format\<lparr>spineWidth := Some (getSpineWidth (bindingType s) pc)\<rparr>
                               else format)
                 in \<lparr>next_state = s1\<lparr>customWidth := w, customHeight := h\<rparr>,
                     emitted = Some (Format format), thrown = None\<rparr>)
            | Inherited \<Rightarrow> \<lparr>next_state = s1, emitted = None, thrown = Some TypeError\<rparr>
            | Undefined \<Rightarrow> \<lparr>next_state = s1, emitted = None, thrown = Some TypeError\<rparr>)
         else if \<not> useCustom then
           (let format = spreadEntry (selectedFormat s);
                format = set_gutterWidth (getGutterWidth pc) format;
                format = set_pageCount pc format;
                format = (if obj_isSpread format
                          then set_spineWidth (getSpineWidth (bindingType s) pc) format
                          else format)
            in \<lparr>next_state = s1, emitted = Some format, thrown = None\<rparr>)
         else \<lparr>next_state = s1, emitted = None, thrown = None\<rparr>)"

subsection \<open>The application around the component\<close>

text \<open>
  \<^verbatim>\<open>App\<close> keeps the resolved format in \<^verbatim>\<open>bookFormat\<close>, initially
  \<^verbatim>\<open>BOOK_FORMATS.usTrade\<close>; its \<^verbatim>\<open>handleFormatChange\<close>, the \<^verbatim>\<open>onFormatChange\<close> of
  the component, stores the format it is given. An event of the user interface runs one
  handler of the component.
\<close>

datatype Event =
    FormatChange string
  | PageCountChange int
  | ToggleSpread bool
  | BindingTypeChange BindingType
  | CustomWidthChange real
  | CustomHeightChange real
  | ToggleCustomSize bool

fun handle :: "Event \<Rightarrow> Controls \<Rightarrow> Outcome" where
  "handle (FormatChange k) s = handleFormatChange k s"
| "handle (PageCountChange n) s = handlePageCountChange n s"
| "handle (ToggleSpread b) s = handleToggleSpread b s"
| "handle (BindingTypeChange t) s = handleBindingTypeChange t s"
| "handle (CustomWidthChange w) s = handleCustomWidthChange w s"
| "handle (CustomHeightChange h) s = handleCustomHeightChange h s"
| "handle (ToggleCustomSize b) s = handleToggleCustomSize b s"

text \<open>
  After a handler has run, the queued state is rendered, also when the handler ended
  with an exception. Two reads of the next render can raise. The format information of
  \<^verbatim>\<open>Controls\<close> reads \<^verbatim>\<open>BOOK_FORMATS[selectedFormat].noBleed.width\<close> unless the custom
  size is in use; the status line of \<^verbatim>\<open>CanvasEditor\<close>, like its drawing effect, reads
  \<^verbatim>\<open>bookFormat.withBleed.width\<close>. No error boundary is declared, so an exception of
  a render unmounts the whole tree: the flag \<open>mounted\<close> falls, no handler runs any
  more, and the other fields keep the values last set, which no component holds then.

  A step runs the handler of the event on the state as it is: whether the control of
  the event is enabled, or offers the value, in the render of that state is not part
  of the model. (The format list offers the keys of the catalog only and is disabled
  while the custom size is in use; the spread check box is disabled unless the custom
  size is in use or the selected id contains \<open>Spread\<close>; the size inputs are rendered
  while the custom size is in use.)
\<close>

definition controls_render_ok :: "Controls \<Rightarrow> bool" where
  "controls_render_ok s =
     (useCustomSize s \<or>
      (case BOOK_FORMATS_index (selectedFormat s) of
         Entry f \<Rightarrow> True | Inherited \<Rightarrow> False | Undefined \<Rightarrow> False))"

fun canvas_render_ok :: "FormatObj \<Rightarrow> bool" where
  "canvas_render_ok (Format f) = True"
| "canvas_render_ok (Fragment _ _ _) = False"

record App =
  bookFormat :: FormatObj
  controls :: Controls
  mounted :: bool

definition initial_app :: App where
  "initial_app = \<lparr>bookFormat = Format usTrade, controls = initial_controls, mounted = True\<rparr>"

definition app_step :: "Event \<Rightarrow> App \<Rightarrow> App" where
  "app_step ev a =
     (if \<not> mounted a then a
      else
        (let out = handle ev (controls a);
             format = (case emitted out of Some f \<Rightarrow> f | None \<Rightarrow> bookFormat a)
         in \<lparr>bookFormat = format, controls = next_state out,
             mounted = (controls_render_ok (next_state out) \<and> canvas_render_ok format)\<rparr>))"

fun app_run :: "Event list \<Rightarrow> App \<Rightarrow> App" where
  "app_run [] a = a"
| "app_run (ev # evs) a = app_run evs (app_step ev a)"

section \<open>Placement geometry: the guides of the canvas\<close>

text \<open>
  The canvas is the list of the objects added to it, in the order of the
  \<^verbatim>\<open>canvas.add\<close> calls. A rectangle is \<open>Rect left top width height name\<close>, a line is
  \<open>Line x1 y1 x2 y2 name\<close>, the name being the \<^verbatim>\<open>data.name\<close> of the object.
\<close>

datatype CanvasObject =
    Rect real real real real string
  | Line real real real real string

definition drawBleedMargins :: "CanvasObject list \<Rightarrow> BookFormat \<Rightarrow> real \<Rightarrow> CanvasObject list" where
  "drawBleedMargins canvas format dpi =
     (let bleed = 0.125 * dpi;
          w = width (withBleed format) * dpi;
          h = height (withBleed format) * dpi
      in canvas @ [Rect bleed bleed (w - 2 * bleed) (h - 2 * bleed) ''trim''])"

definition drawSafetyMargins :: "CanvasObject list \<Rightarrow> BookFormat \<Rightarrow> real \<Rightarrow> CanvasObject list" where
  "drawSafetyMargins canvas format dpi =
     (let bleed = 0.125 * dpi;
          safety = 0.25 * dpi;
          w = width (withBleed format) * dpi;
          h = height (withBleed format) * dpi
      in canvas @ [Rect (bleed + safety) (bleed + safety)
                        (w - 2 * (bleed + safety)) (h - 2 * (bleed + safety)) ''safety''])"

text \<open>
  \<^verbatim>\<open>format.spineWidth && format.spineWidth > 0\<close> holds for a spine width that is
  present, not zero, and positive.
\<close>

definition drawGutterArea :: "CanvasObject list \<Rightarrow> BookFormat \<Rightarrow> real \<Rightarrow> CanvasObject list" where
  "drawGutterArea canvas format dpi =
     (if \<not> isSpread format then canvas
      else
        (let w = width (withBleed format) * dpi;
             h = height (withBleed format) * dpi;
             centerLine = Line (w / 2) 0 (w / 2) h ''gutter'';
             gw = gutterWidth format * dpi;
             canvas1 = (if gw > 0
                        then canvas @ [Rect (w / 2 - gw / 2) 0 gw h ''gutterArea'']
                        else canvas);
             canvas2 = (case spineWidth format of
                          Some sw \<Rightarrow>
                            if sw \<noteq> 0 \<and> sw > 0
                            then canvas1 @ [Rect (w / 2 - (sw * dpi) / 2) 0 (sw * dpi) h ''spine'']
                            else canvas1
                        | None \<Rightarrow> canvas1)
         in canvas2 @ [centerLine]))"

text \<open>
  The guides the effect of \<^verbatim>\<open>CanvasEditor\<close> draws on a canvas cleared of guides, at
  its fixed 72 dots per inch, for the three display flags of the props. The grid and the
  rulers, which the effect draws next, are left out: their objects carry the names
  \<open>hRuler\<close>, \<open>vRuler\<close>, \<open>hTick\<close>, \<open>hLabel\<close>, \<open>vTick\<close>, \<open>vLabel\<close> or none.
\<close>

definition drawGuides :: "bool \<Rightarrow> bool \<Rightarrow> bool \<Rightarrow> BookFormat \<Rightarrow> CanvasObject list" where
  "drawGuides showBleed showSafety showGutter format =
     (let dpi = 72;
          c0 = [];
          c1 = (if showBleed then drawBleedMargins c0 format dpi else c0);
          c2 = (if showSafety then drawSafetyMargins c1 format dpi else c1)
      in if showGutter then drawGutterArea c2 format dpi else c2)"

fun object_name :: "CanvasObject \<Rightarrow> string" where
  "object_name (Rect _ _ _ _ n) = n"
| "object_name (Line _ _ _ _ n) = n"

definition objects_named :: "string \<Rightarrow> CanvasObject list \<Rightarrow> CanvasObject list" where
  "objects_named n canvas = filter (\<lambda>obj. object_name obj = n) canvas"

text \<open>
  The horizontal extent of an object, as its left edge and its width: the fields of a
  rectangle, and for a line the interval its two end points span. A vertical line has
  the width 0.
\<close>

fun horizontal_extent :: "CanvasObject \<Rightarrow> real \<times> real" where
  "horizontal_extent (Rect l t w h _) = (l, w)"
| "horizontal_extent (Line x1 y1 x2 y2 _) = (min x1 x2, \<bar>x2 - x1\<bar>)"

section \<open>Properties\<close>

lemmas catalog_entry_defs = pocketbook_def digest_def a5_def royal_def usTrade_def
  comicBook_def pocketbookSpread_def digestSpread_def

lemmas catalog_defs = BOOK_FORMATS_def BOOK_FORMATS_entries_def catalog_entry_defs

lemmas handler_defs = handleFormatChange_def handlePageCountChange_def handleToggleSpread_def
  handleBindingTypeChange_def handleCustomWidthChange_def handleCustomHeightChange_def
  handleToggleCustomSize_def updateFormat_def spreadEntry_def customFormat_def

lemmas index_defs = BOOK_FORMATS_index_def Object_prototype_names_def

lemmas app_defs = app_step_def initial_app_def initial_controls_def controls_render_ok_def

lemma catalog_cases:
  "BOOK_FORMATS k = Some f \<Longrightarrow>
     (k = ''pocketbook'' \<and> f = pocketbook) \<or> (k = ''digest'' \<and> f = digest) \<or>
     (k = ''a5'' \<and> f = a5) \<or> (k = ''royal'' \<and> f = royal) \<or>
     (k = ''usTrade'' \<and> f = usTrade) \<or> (k = ''comicBook'' \<and> f = comicBook) \<or>
     (k = ''pocketbookSpread'' \<and> f = pocketbookSpread) \<or>
     (k = ''digestSpread'' \<and> f = digestSpread)"
  unfolding BOOK_FORMATS_def
  by (drule map_of_SomeD) (simp add: BOOK_FORMATS_entries_def)

lemma catalog_not_custom: "BOOK_FORMATS k = Some f \<Longrightarrow> format_id f \<noteq> ''custom''"
  by (drule catalog_cases, elim disjE conjE; simp add: catalog_entry_defs)

lemma lookup_usTrade: "BOOK_FORMATS ''usTrade'' = Some usTrade"
  by (simp add: BOOK_FORMATS_def BOOK_FORMATS_entries_def)

lemma lookup_pocketbookSpread: "BOOK_FORMATS ''pocketbookSpread'' = Some pocketbookSpread"
  by (simp add: BOOK_FORMATS_def BOOK_FORMATS_entries_def)

subsection \<open>Specification rules\<close>

text \<open>
  C1. For every page count, \<open>getGutterWidth\<close> returns 0 below 60 pages, 0.125 from 60 to
  150, 0.5 from 151 to 400, 0.625 from 401 to 600 and 0.75 above 600; at 60 pages it
  returns 0.125, not 0. (Stated for every integer, the non-negative ones among them.)
\<close>

theorem getGutterWidth_brackets:
  "(pc < 60 \<longrightarrow> getGutterWidth pc = 0)
   \<and> (60 \<le> pc \<and> pc \<le> 150 \<longrightarrow> getGutterWidth pc = 0.125)
   \<and> (151 \<le> pc \<and> pc \<le> 400 \<longrightarrow> getGutterWidth pc = 0.5)
   \<and> (401 \<le> pc \<and> pc \<le> 600 \<longrightarrow> getGutterWidth pc = 0.625)
   \<and> (600 < pc \<longrightarrow> getGutterWidth pc = 0.75)
   \<and> getGutterWidth 60 = 0.125 \<and> getGutterWidth 60 \<noteq> 0"
  by (simp add: getGutterWidth_def)

theorem getGutterWidth_brackets_witness:
  "map getGutterWidth [0, 59, 60, 150, 151, 400, 401, 600, 601, 10000]
     = [0, 0, 0.125, 0.125, 0.5, 0.5, 0.625, 0.625, 0.75, 0.75]"
  using getGutterWidth_brackets [of 0] getGutterWidth_brackets [of 59]
    getGutterWidth_brackets [of 60] getGutterWidth_brackets [of 150]
    getGutterWidth_brackets [of 151] getGutterWidth_brackets [of 400]
    getGutterWidth_brackets [of 401] getGutterWidth_brackets [of 600]
    getGutterWidth_brackets [of 601] getGutterWidth_brackets [of 10000]
  by simp

text \<open>
  C2. \<open>calculateHardcoverSpineWidth\<close> returns 0 for every page count below 24 and
  agrees at every page count with the bracket table of the specification
  (\<open>hardcover_spec\<close>); it returns 0 at 23 pages, 0.25 at 24 pages, 1.625 at 600 pages
  and at every page count above 582.
\<close>

theorem hardcover_table:
  "(pc < 24 \<longrightarrow> calculateHardcoverSpineWidth pc = 0)
   \<and> calculateHardcoverSpineWidth pc = hardcover_spec pc
   \<and> calculateHardcoverSpineWidth 23 = 0
   \<and> calculateHardcoverSpineWidth 24 = 0.25
   \<and> calculateHardcoverSpineWidth 600 = 1.625
   \<and> (582 < pc \<longrightarrow> calculateHardcoverSpineWidth pc = 1.625)"
  by (simp add: calculateHardcoverSpineWidth_def hardcover_spec_def hardcover_brackets_def)

theorem hardcover_table_witness:
  "calculateHardcoverSpineWidth 10 = 0
   \<and> calculateHardcoverSpineWidth 583 = 1.625
   \<and> calculateHardcoverSpineWidth 306 = hardcover_spec 306"
  using hardcover_table [of 10] hardcover_table [of 583] hardcover_table [of 306]
  by simp


text \<open>
  C3. For every page count, \<open>calculatePaperbackSpineWidth\<close> returns the page count
  divided by 444, plus 0.06, whatever the size of the page count (no bound is applied
  to the argument or to the result): 1.06 at 444 pages and 0.06 at 0 pages.
\<close>

theorem paperback_formula:
  "calculatePaperbackSpineWidth pc = real_of_int pc / 444 + 0.06
   \<and> calculatePaperbackSpineWidth 444 = 1.06
   \<and> calculatePaperbackSpineWidth 0 = 0.06"
  by (simp add: calculatePaperbackSpineWidth_def)

text \<open>
  C9. \<open>calculateHardcoverSpineWidth\<close> is monotone: a page count that is not smaller
  gives a width that is not smaller.
\<close>

theorem hardcover_monotone:
  "p \<le> q \<Longrightarrow> calculateHardcoverSpineWidth p \<le> calculateHardcoverSpineWidth q"
  unfolding calculateHardcoverSpineWidth_def by (simp split: if_splits)

theorem hardcover_monotone_witness:
  "(194::int) \<le> 195 \<and> calculateHardcoverSpineWidth 194 \<le> calculateHardcoverSpineWidth 195"
  using hardcover_monotone [of 194 195] by simp

subsection \<open>The catalog\<close>

text \<open>
  C10. Every entry of the catalog has its key as its id. An entry that is not a spread
  has a bled width and a bled height 0.25 above the trim width and height. The spread
  entries are \<open>pocketbookSpread\<close> and \<open>digestSpread\<close>, and no other; their bled width
  is 0.5 above the trim width and their bled height 0.25 above the trim height.
\<close>

theorem catalog_bleed_and_ids:
  assumes "BOOK_FORMATS k = Some f"
  shows "format_id f = k
     \<and> (\<not> isSpread f \<longrightarrow> width (withBleed f) = width (noBleed f) + 0.25
                         \<and> height (withBleed f) = height (noBleed f) + 0.25)
     \<and> (isSpread f \<longrightarrow> width (withBleed f) = width (noBleed f) + 0.5
                       \<and> height (withBleed f) = height (noBleed f) + 0.25)
     \<and> (isSpread f \<longleftrightarrow> k = ''pocketbookSpread'' \<or> k = ''digestSpread'')
     \<and> BOOK_FORMATS ''pocketbookSpread'' = Some pocketbookSpread
     \<and> BOOK_FORMATS ''digestSpread'' = Some digestSpread"
proof -
  have entry: "format_id f = k
     \<and> (\<not> isSpread f \<longrightarrow> width (withBleed f) = width (noBleed f) + 0.25
                         \<and> height (withBleed f) = height (noBleed f) + 0.25)
     \<and> (isSpread f \<longrightarrow> width (withBleed f) = width (noBleed f) + 0.5
                       \<and> height (withBleed f) = height (noBleed f) + 0.25)
     \<and> (isSpread f \<longleftrightarrow> k = ''pocketbookSpread'' \<or> k = ''digestSpread'')"
    using catalog_cases [OF assms]
    by (elim disjE conjE; simp add: catalog_entry_defs)
  have spreads: "BOOK_FORMATS ''pocketbookSpread'' = Some pocketbookSpread
     \<and> BOOK_FORMATS ''digestSpread'' = Some digestSpread"
    by (simp add: BOOK_FORMATS_def BOOK_FORMATS_entries_def)
  from entry spreads show ?thesis by simp
qed

theorem catalog_bleed_and_ids_witness:
  "BOOK_FORMATS ''pocketbookSpread'' = Some pocketbookSpread
   \<and> format_id pocketbookSpread = ''pocketbookSpread''
   \<and> isSpread pocketbookSpread
   \<and> width (withBleed pocketbookSpread) = width (noBleed pocketbookSpread) + 0.5
   \<and> height (withBleed pocketbookSpread) = height (noBleed pocketbookSpread) + 0.25
   \<and> BOOK_FORMATS ''usTrade'' = Some usTrade
   \<and> \<not> isSpread usTrade
   \<and> width (withBleed usTrade) = width (noBleed usTrade) + 0.25
   \<and> height (withBleed usTrade) = height (noBleed usTrade) + 0.25"
  using catalog_bleed_and_ids [OF lookup_pocketbookSpread]
    catalog_bleed_and_ids [OF lookup_usTrade]
    lookup_pocketbookSpread lookup_usTrade
  by simp


subsection \<open>Format resolution\<close>

lemma index_doesNotExist: "BOOK_FORMATS_index ''doesNotExist'' = Undefined"
  by (simp add: BOOK_FORMATS_index_def BOOK_FORMATS_def BOOK_FORMATS_entries_def
      Object_prototype_names_def)


lemma getGutterWidth_nonneg: "0 \<le> getGutterWidth pc"
  by (simp add: getGutterWidth_def)

lemma index_entry: "BOOK_FORMATS k = Some f \<Longrightarrow> BOOK_FORMATS_index k = Entry f"
  by (simp add: BOOK_FORMATS_index_def)

lemma index_Entry_iff: "BOOK_FORMATS_index k = Entry f \<longleftrightarrow> BOOK_FORMATS k = Some f"
  by (simp add: BOOK_FORMATS_index_def split: option.splits)

text \<open>
  C4 as stated does not hold of the code. The id \<open>toString\<close> is not a key of the
  catalog, yet \<open>handleFormatChange\<close> raises nothing for it: it passes on an object that
  holds a gutter width and nothing else, and this object replaces the format the
  application held.
\<close>

theorem inherited_format_id_not_rejected:
  "BOOK_FORMATS ''toString'' = None
   \<and> thrown (handleFormatChange ''toString'' initial_controls) = None
   \<and> emitted (handleFormatChange ''toString'' initial_controls)
       = Some (Fragment (Some 0.125) None None)
   \<and> bookFormat initial_app = Format usTrade
   \<and> bookFormat (app_step (FormatChange ''toString'') initial_app)
       = Fragment (Some 0.125) None None"
  by (simp add: app_step_def initial_app_def initial_controls_def handleFormatChange_def
      spreadEntry_def BOOK_FORMATS_index_def Object_prototype_names_def Let_def
      BOOK_FORMATS_def BOOK_FORMATS_entries_def getGutterWidth_def)

text \<open>
  C4, amended. For a format id at which the catalog object gives \<^verbatim>\<open>undefined\<close>,
  \<open>handleFormatChange\<close> ends with the \<^verbatim>\<open>TypeError\<close> of reading \<^verbatim>\<open>isSpread\<close> of
  \<^verbatim>\<open>undefined\<close> and passes no format to \<^verbatim>\<open>onFormatChange\<close>, no default among
  them: the handler does not replace the format of the application. The selected id is
  the unknown one by then, so the render that follows raises and the application is
  unmounted. The catalog is a constant; nothing writes to it.
\<close>

theorem unknown_format_id_throws:
  assumes "BOOK_FORMATS_index formatId = Undefined"
  shows "thrown (handleFormatChange formatId s) = Some TypeError
       \<and> emitted (handleFormatChange formatId s) = None
       \<and> bookFormat (app_step (FormatChange formatId) a) = bookFormat a
       \<and> \<not> mounted (app_step (FormatChange formatId) a)"
  using assms
  by (simp add: handleFormatChange_def app_step_def controls_render_ok_def Let_def)

theorem unknown_format_id_throws_witness:
  "BOOK_FORMATS_index ''doesNotExist'' = Undefined
   \<and> thrown (handleFormatChange ''doesNotExist'' initial_controls) = Some TypeError
   \<and> emitted (handleFormatChange ''doesNotExist'' initial_controls) = None
   \<and> bookFormat (app_step (FormatChange ''doesNotExist'') initial_app) = Format usTrade
   \<and> \<not> mounted (app_step (FormatChange ''doesNotExist'') initial_app)"
  using index_doesNotExist
    unknown_format_id_throws [OF index_doesNotExist, of initial_controls initial_app]
  by (simp add: initial_app_def)

text \<open>
  Only \<open>handleFormatChange\<close> raises on an unknown id. A handler that reads the
  selected id from the state copies \<^verbatim>\<open>undefined\<close> into an empty object without an
  exception: the page-count handler then passes on a gutter width and a page count and
  nothing else.
\<close>

lemma unknown_selected_id_gives_fragment:
  assumes "BOOK_FORMATS_index (selectedFormat s) = Undefined" and "\<not> useCustomSize s"
  shows "emitted (handlePageCountChange n s) = Some (Fragment (Some (getGutterWidth n)) None (Some n))
       \<and> thrown (handlePageCountChange n s) = None"
  using assms by (simp add: handlePageCountChange_def spreadEntry_def Let_def)

text \<open>
  The page-count handler is the pattern the other catalog paths are measured against:
  on a catalog format it passes on the copy of the entry with the gutter width of the
  new page count, the page count itself, and, for a spread, the spine width of the
  selected binding.
\<close>

lemma handlePageCountChange_resolves:
  assumes "BOOK_FORMATS (selectedFormat s) = Some e" and "\<not> useCustomSize s"
  shows "emitted (handlePageCountChange n s) =
           Some (Format (e\<lparr>gutterWidth := getGutterWidth n, pageCount := Some n,
                   spineWidth := (if isSpread e then Some (getSpineWidth (bindingType s) n)
                                  else spineWidth e)\<rparr>))"
  using assms by (simp add: handlePageCountChange_def spreadEntry_def index_entry Let_def)

text \<open>
  The binding handler copies the entry again and sets the page count and the spine
  width only: on the cover spread of the pocketbook at 200 pages it passes on the gutter
  width 0.125 of the catalog, where the page-count handler had passed on 0.5.
\<close>

lemma binding_change_keeps_catalog_gutter:
  "bookFormat (app_run [FormatChange ''pocketbookSpread'', PageCountChange 200,
                        BindingTypeChange Hardcover] initial_app)
     = Format (pocketbookSpread\<lparr>pageCount := Some 200, spineWidth := Some 0.75\<rparr>)
   \<and> gutterWidth pocketbookSpread = 0.125"
  by (simp add: app_defs handler_defs Let_def index_defs catalog_defs getGutterWidth_def
      getSpineWidth_def calculateHardcoverSpineWidth_def calculatePaperbackSpineWidth_def)

text \<open>
  C5 does not hold of the code. After the cover spread of the pocketbook is selected and
  the page count is set to 200, switching the spread off passes on the catalog entry
  \<open>pocketbook\<close> as it is: gutter width 0 and no page count, where the gutter rule gives
  0.5 at 200 pages. Changing the page count to 200 once more, from the state reached,
  passes on the resolved copy. Likewise \<open>handleFormatChange\<close> on the single-page format
  \<open>usTrade\<close> sets the gutter width and leaves the page count absent.
\<close>

theorem toggle_back_skips_resolution:
  "bookFormat (app_run [FormatChange ''pocketbookSpread'', PageCountChange 200,
                        ToggleSpread False] initial_app) = Format pocketbook
   \<and> gutterWidth pocketbook = 0 \<and> pageCount pocketbook = None
   \<and> getGutterWidth 200 = 0.5
   \<and> bookFormat (app_run [FormatChange ''pocketbookSpread'', PageCountChange 200,
                          ToggleSpread False, PageCountChange 200] initial_app)
       = Format (pocketbook\<lparr>gutterWidth := 0.5, pageCount := Some 200\<rparr>)
   \<and> emitted (handleFormatChange ''usTrade'' initial_controls)
       = Some (Format (usTrade\<lparr>gutterWidth := 0.125\<rparr>))
   \<and> pageCount (usTrade\<lparr>gutterWidth := 0.125\<rparr>) = None"
  by (simp add: app_defs handler_defs Let_def index_defs catalog_defs getGutterWidth_def
      getSpineWidth_def)

text \<open>
  Every format with the id \<open>custom\<close> that a handler passes on has a bled size 0.25
  above its trim size in width and in height, and \<open>updateFormat\<close> builds the custom
  format from the width and the height of the state it is applied to.
\<close>

lemma custom_format_additive:
  assumes "emitted (handle ev s) = Some (Format f)" and "format_id f = ''custom''"
  shows "withBleed f = \<lparr>width = width (noBleed f) + 0.25, height = height (noBleed f) + 0.25\<rparr>"
  using assms
  by (cases ev)
     (auto simp: handler_defs index_Entry_iff Let_def
           split: if_splits option.splits Lookup.splits dest: catalog_not_custom)

lemma updateFormat_custom:
  assumes "useCustomSize s"
  shows "\<exists>f. updateFormat s = Format f
           \<and> noBleed f = \<lparr>width = customWidth s, height = customHeight s\<rparr>
           \<and> withBleed f = \<lparr>width = customWidth s + 0.25, height = customHeight s + 0.25\<rparr>"
  using assms by (simp add: updateFormat_def customFormat_def Let_def)

text \<open>
  C7 does not hold of the code. With the custom size switched on (6 by 9, the trim size
  of the selected US Trade format), the user enters the width 5 and then the height 8.
  Each of the two handlers stores the value entered and calls \<open>updateFormat\<close> on the
  state of the render it belongs to, the one before the value was stored: the format
  the application holds at the end has the trim size 5 by 9 and the bled size 5.25 by
  9.25, while the state holds 5 and 8. The next event that rebuilds the format, here
  the page count entered again, passes on 5 by 8.
\<close>

theorem custom_size_edit_lags:
  "bookFormat (app_run [ToggleCustomSize True, CustomWidthChange 5, CustomHeightChange 8]
                 initial_app) = Format (customFormat 5 9 False 60)
   \<and> customWidth (controls (app_run [ToggleCustomSize True, CustomWidthChange 5,
                                      CustomHeightChange 8] initial_app)) = 5
   \<and> customHeight (controls (app_run [ToggleCustomSize True, CustomWidthChange 5,
                                       CustomHeightChange 8] initial_app)) = 8
   \<and> noBleed (customFormat 5 9 False 60) = \<lparr>width = 5, height = 9\<rparr>
   \<and> withBleed (customFormat 5 9 False 60) = \<lparr>width = 5.25, height = 9.25\<rparr>
   \<and> bookFormat (app_run [ToggleCustomSize True, CustomWidthChange 5, CustomHeightChange 8,
                          PageCountChange 60] initial_app) = Format (customFormat 5 8 False 60)"
  by (simp add: app_defs handler_defs Let_def index_defs catalog_defs getGutterWidth_def)

text \<open>
  For every key of the catalog, the id with the first \<open>Spread\<close> removed is a key of the
  catalog again: on a catalog format, switching the spread off always finds an entry.
\<close>

lemma switch_off_finds_entry:
  "BOOK_FORMATS k = Some f \<Longrightarrow> BOOK_FORMATS (replace_first ''Spread'' [] k) \<noteq> None"
  by (drule catalog_cases, elim disjE conjE;
      simp add: BOOK_FORMATS_def BOOK_FORMATS_entries_def)




subsection \<open>Placement geometry\<close>

lemma drawGutterArea_band:
  "isSpread f \<Longrightarrow>
     objects_named ''gutterArea'' (drawGutterArea canvas f dpi) =
       objects_named ''gutterArea'' canvas @
       (if gutterWidth f * dpi > 0
        then [Rect (width (withBleed f) * dpi / 2 - gutterWidth f * dpi / 2) 0
                   (gutterWidth f * dpi) (height (withBleed f) * dpi) ''gutterArea'']
        else [])"
  by (simp add: drawGutterArea_def objects_named_def Let_def split: option.splits)

lemma drawGutterArea_line:
  "isSpread f \<Longrightarrow>
     objects_named ''gutter'' (drawGutterArea canvas f dpi) =
       objects_named ''gutter'' canvas @
       [Line (width (withBleed f) * dpi / 2) 0 (width (withBleed f) * dpi / 2)
             (height (withBleed f) * dpi) ''gutter'']"
  by (simp add: drawGutterArea_def objects_named_def Let_def split: option.splits)

text \<open>
  C6. For every spread format with a gutter width that is not negative, and gutter
  display switched on, the guides hold a vertical band over the height of the bled
  page whose width is the gutter width in device units (72 to the inch) and whose left
  edge is half that width to the left of the horizontal midpoint of the bled page. For
  a positive gutter width the band is the rectangle \<open>gutterArea\<close>; the code draws this
  rectangle for a positive width only, and for the gutter width 0 the band is the line
  \<open>gutter\<close>, drawn for every spread from the top to the bottom of the page at the
  midpoint: the band of width 0.
\<close>

theorem gutter_band_at_midpoint:
  assumes "isSpread f" and "0 \<le> gutterWidth f"
  shows "objects_named ''gutter'' (drawGuides sb ss True f) =
           [Line (width (withBleed f) * 72 / 2) 0 (width (withBleed f) * 72 / 2)
                 (height (withBleed f) * 72) ''gutter'']
       \<and> objects_named ''gutterArea'' (drawGuides sb ss True f) =
           (if 0 < gutterWidth f
            then [Rect (width (withBleed f) * 72 / 2 - gutterWidth f * 72 / 2) 0
                       (gutterWidth f * 72) (height (withBleed f) * 72) ''gutterArea'']
            else [])
       \<and> horizontal_extent
           (if 0 < gutterWidth f
            then Rect (width (withBleed f) * 72 / 2 - gutterWidth f * 72 / 2) 0
                      (gutterWidth f * 72) (height (withBleed f) * 72) ''gutterArea''
            else Line (width (withBleed f) * 72 / 2) 0 (width (withBleed f) * 72 / 2)
                      (height (withBleed f) * 72) ''gutter'')
           = (width (withBleed f) * 72 / 2 - gutterWidth f * 72 / 2, gutterWidth f * 72)"
proof -
  have other: "objects_named n (drawSafetyMargins (drawBleedMargins [] f d) f d) = []"
    "objects_named n (drawSafetyMargins [] f d) = []"
    "objects_named n (drawBleedMargins [] f d) = []"
    "objects_named n [] = []"
    if "n = ''gutter'' \<or> n = ''gutterArea''" for n d
    using that
    by (auto simp: objects_named_def drawBleedMargins_def drawSafetyMargins_def Let_def)
  have line: "objects_named ''gutter'' (drawGuides sb ss True f) =
           [Line (width (withBleed f) * 72 / 2) 0 (width (withBleed f) * 72 / 2)
                 (height (withBleed f) * 72) ''gutter'']"
    using assms(1) by (simp add: drawGuides_def drawGutterArea_line other Let_def)
  have band: "objects_named ''gutterArea'' (drawGuides sb ss True f) =
           (if 0 < gutterWidth f
            then [Rect (width (withBleed f) * 72 / 2 - gutterWidth f * 72 / 2) 0
                       (gutterWidth f * 72) (height (withBleed f) * 72) ''gutterArea'']
            else [])"
    using assms(1) by (simp add: drawGuides_def drawGutterArea_band other Let_def)
  have extent: "horizontal_extent
           (if 0 < gutterWidth f
            then Rect (width (withBleed f) * 72 / 2 - gutterWidth f * 72 / 2) 0
                      (gutterWidth f * 72) (height (withBleed f) * 72) ''gutterArea''
            else Line (width (withBleed f) * 72 / 2) 0 (width (withBleed f) * 72 / 2)
                      (height (withBleed f) * 72) ''gutter'')
           = (width (withBleed f) * 72 / 2 - gutterWidth f * 72 / 2, gutterWidth f * 72)"
    using assms(2) by simp
  from line band extent show ?thesis by simp
qed

theorem gutter_band_at_midpoint_witness:
  "isSpread (pocketbookSpread\<lparr>gutterWidth := getGutterWidth 30\<rparr>)
   \<and> 0 \<le> gutterWidth (pocketbookSpread\<lparr>gutterWidth := getGutterWidth 30\<rparr>)
   \<and> objects_named ''gutter''
       (drawGuides True True True (pocketbookSpread\<lparr>gutterWidth := getGutterWidth 30\<rparr>))
       = [Line 324 0 324 513 ''gutter'']
   \<and> objects_named ''gutterArea''
       (drawGuides True True True (pocketbookSpread\<lparr>gutterWidth := getGutterWidth 30\<rparr>)) = []
   \<and> horizontal_extent (Line 324 0 324 513 ''gutter'') = (324, 0)
   \<and> isSpread pocketbookSpread \<and> 0 \<le> gutterWidth pocketbookSpread
   \<and> objects_named ''gutterArea'' (drawGuides True True True pocketbookSpread)
       = [Rect 319.5 0 9 513 ''gutterArea'']
   \<and> horizontal_extent (Rect 319.5 0 9 513 ''gutterArea'') = (319.5, 9)"
proof -
  let ?f = "pocketbookSpread\<lparr>gutterWidth := getGutterWidth 30\<rparr>"
  have sp0: "isSpread ?f" and g0: "0 \<le> gutterWidth ?f"
    by (simp_all add: pocketbookSpread_def getGutterWidth_def)
  have sp1: "isSpread pocketbookSpread" and g1: "0 \<le> gutterWidth pocketbookSpread"
    by (simp_all add: pocketbookSpread_def)
  show ?thesis
    using sp0 g0 sp1 g1
      gutter_band_at_midpoint [OF sp0 g0, of True True]
      gutter_band_at_midpoint [OF sp1 g1, of True True]
    by (simp add: pocketbookSpread_def getGutterWidth_def)
qed

end
